theory Spec2Isabelle
  imports Complex_Main
begin

section \<open>JavaScript primitives used by the dashboard components\<close>

text \<open>
  The components are TypeScript. A JavaScript number is modelled by a \<^typ>\<open>real\<close>: the
  values that arrive from the JSON API are finite, and rounding of binary floating point
  is not part of the model. Where an operation of the source can leave the finite
  numbers (a division by zero gives \<open>Infinity\<close> or \<open>NaN\<close>, \<open>Math.min()\<close> of no argument
  is \<open>Infinity\<close>), its result is a \<^typ>\<open>real option\<close> and \<^const>\<open>None\<close> stands for
  "\<open>NaN\<close> or \<open>\<plusminus>Infinity\<close>". A field that may be \<open>null\<close>, \<open>undefined\<close> or absent is an
  option, \<^const>\<open>None\<close> standing for all three.
\<close>

subsection \<open>Printing and reading decimal integers\<close>

text \<open>The decimal digit of a number below ten.\<close>

definition digit_char :: "nat \<Rightarrow> char" where
  "digit_char n = ''0123456789'' ! n"

fun show_nat :: "nat \<Rightarrow> string" where
  "show_nat n =
     (if n < 10 then [digit_char n]
      else show_nat (n div 10) @ [digit_char (n mod 10)])"

declare show_nat.simps [simp del]

text \<open>Template literals print an integral number in decimal, with a sign when negative.\<close>

definition show_int :: "int \<Rightarrow> string" where
  "show_int i = (if i < 0 then CHR ''-'' # show_nat (nat (- i)) else show_nat (nat i))"

definition parse_nat :: "string \<Rightarrow> nat" where
  "parse_nat s = foldl (\<lambda>acc c. acc * 10 + (of_char c - 48)) 0 s"

text \<open>
  An array index (ECMAScript, 6.1.7) is a property key that is a canonical numeric string,
  that is, one that printing its numeric value gives back, with a value below
  \<open>2\<^sup>3\<^sup>2 - 1\<close>.
\<close>

definition is_array_index :: "string \<Rightarrow> bool" where
  "is_array_index k \<longleftrightarrow> show_nat (parse_nat k) = k \<and> parse_nat k < 4294967295"

subsection \<open>Strings\<close>

text \<open>
  \<open>String.prototype.toUpperCase\<close> on the ASCII letters. A string is a list of bytes here;
  no character outside \<open>a\<close>..\<open>z\<close> has an upper case that is an ASCII letter, so the test
  \<open>toUpperCase() === "A"\<close> of the source is decided by this function.
\<close>

definition upper_char :: "char \<Rightarrow> char" where
  "upper_char c =
     (case map_of (zip ''abcdefghijklmnopqrstuvwxyz'' ''ABCDEFGHIJKLMNOPQRSTUVWXYZ'') c of
        Some u \<Rightarrow> u
      | None \<Rightarrow> c)"

definition toUpperCase :: "string \<Rightarrow> string" where
  "toUpperCase s = map upper_char s"

text \<open>\<open>v || d\<close> on a string field: \<open>null\<close>, \<open>undefined\<close> and the empty string are falsy.\<close>

definition or_str :: "string option \<Rightarrow> string \<Rightarrow> string" where
  "or_str v d = (case v of None \<Rightarrow> d | Some s \<Rightarrow> if s = [] then d else s)"

text \<open>\<open>v ?? d\<close>: only \<open>null\<close> and \<open>undefined\<close> are replaced.\<close>

definition nullish_str :: "string option \<Rightarrow> string \<Rightarrow> string" where
  "nullish_str v d = (case v of None \<Rightarrow> d | Some s \<Rightarrow> s)"

subsection \<open>Numbers\<close>

text \<open>\<open>v || 0\<close> on a number field: a missing value and \<open>0\<close> both give \<open>0\<close>.\<close>

definition or_num :: "real option \<Rightarrow> real" where
  "or_num v = (case v of None \<Rightarrow> 0 | Some a \<Rightarrow> a)"

text \<open>\<open>s || 1\<close> on a finite number: only \<open>0\<close> is falsy.\<close>

definition or1 :: "real \<Rightarrow> real" where
  "or1 s = (if s = 0 then 1 else s)"

text \<open>The number a nullable numeric field denotes in arithmetic (\<open>null\<close> coerces to \<open>0\<close>).\<close>

definition to_number :: "real option \<Rightarrow> real" where
  "to_number v = (case v of None \<Rightarrow> 0 | Some a \<Rightarrow> a)"

text \<open>Division: by zero the quotient is \<open>\<plusminus>Infinity\<close> or \<open>NaN\<close>, which is \<^const>\<open>None\<close>.\<close>

definition js_div :: "real \<Rightarrow> real \<Rightarrow> real option" where
  "js_div a b = (if b = 0 then None else Some (a / b))"

text \<open>\<open>Math.round\<close> rounds to the nearest integer, a half towards \<open>+\<infinity>\<close>.\<close>

definition math_round :: "real \<Rightarrow> int" where
  "math_round v = \<lfloor>v + 1 / 2\<rfloor>"

text \<open>\<open>Math.min(...vs)\<close> and \<open>Math.max(...vs)\<close>; of no argument they are not finite.\<close>

fun math_min :: "real list \<Rightarrow> real option" where
  "math_min [] = None"
| "math_min (v # vs) = Some (fold min vs v)"

fun math_max :: "real list \<Rightarrow> real option" where
  "math_max [] = None"
| "math_max (v # vs) = Some (fold max vs v)"

subsection \<open>Arrays and objects\<close>

text \<open>The pairs \<open>(i, d)\<close> that the callback of \<open>Array.prototype.map\<close> receives.\<close>

definition indexed :: "'a list \<Rightarrow> (nat \<times> 'a) list" where
  "indexed xs = zip [0..<length xs] xs"

text \<open>
  \<open>Array.prototype.sort(cmp)\<close> is stable, and with a comparator that is consistent (as
  a difference of two finite keys is) its result is the one stable sorted arrangement;
  insertion from the right computes it. \<open>cmp a b \<le> 0\<close> keeps \<open>a\<close> before \<open>b\<close>.
\<close>

fun js_insert :: "('a \<Rightarrow> 'a \<Rightarrow> real) \<Rightarrow> 'a \<Rightarrow> 'a list \<Rightarrow> 'a list" where
  "js_insert cmp a [] = [a]"
| "js_insert cmp a (b # bs) = (if cmp a b \<le> 0 then a # b # bs else b # js_insert cmp a bs)"

definition js_sort :: "('a \<Rightarrow> 'a \<Rightarrow> real) \<Rightarrow> 'a list \<Rightarrow> 'a list" where
  "js_sort cmp xs = foldr (js_insert cmp) xs []"

text \<open>
  An object used as a dictionary: its own properties with string keys, in the order of
  their creation. Reading a key that is absent gives \<open>undefined\<close>; writing keeps the place
  of a key that exists and appends a new one. The properties inherited from
  \<open>Object.prototype\<close> are not modelled.
\<close>

type_synonym 'v js_object = "(string \<times> 'v) list"

definition obj_get :: "'v js_object \<Rightarrow> string \<Rightarrow> 'v option" where
  "obj_get ob k = map_of ob k"

fun obj_set :: "string \<Rightarrow> 'v \<Rightarrow> 'v js_object \<Rightarrow> 'v js_object" where
  "obj_set k v [] = [(k, v)]"
| "obj_set k v (p # ps) = (if fst p = k then (k, v) # ps else p # obj_set k v ps)"

text \<open>
  \<open>Object.entries\<close> lists the own properties in the order of \<open>OrdinaryOwnPropertyKeys\<close>:
  the keys that are array indices first, in ascending numeric order, then the other
  string keys in the order of their creation.
\<close>

definition object_entries :: "'v js_object \<Rightarrow> (string \<times> 'v) list" where
  "object_entries ob =
     sort_key (\<lambda>p. parse_nat (fst p)) (filter (\<lambda>p. is_array_index (fst p)) ob)
     @ filter (\<lambda>p. \<not> is_array_index (fst p)) ob"

section \<open>Storage dashboard: colour and radius of a point\<close>

text \<open>
  \<open>colorForOccupancy\<close> interpolates between \<open>rgb(16,185,129)\<close> and \<open>rgb(239,68,68)\<close>.
  \<^term>\<open>occupancy_rgb\<close> is its body up to the three rounded channels, \<^term>\<open>colorForOccupancy\<close>
  the string it returns.
\<close>

definition occupancy_rgb :: "real \<Rightarrow> int \<times> int \<times> int" where
  "occupancy_rgb p =
     (let t = max 0 (min 1 p);
          r = math_round (16 + (239 - 16) * t);
          g = math_round (185 + (68 - 185) * t);
          b = math_round (129 + (68 - 129) * t)
      in (r, g, b))"

definition colorForOccupancy :: "real \<Rightarrow> string" where
  "colorForOccupancy p =
     (case occupancy_rgb p of (r, g, b) \<Rightarrow>
        ''rgb('' @ show_int r @ '','' @ show_int g @ '','' @ show_int b @ '')'')"

section \<open>Storage dashboard: projection of the storage map\<close>

text \<open>
  \<open>MapItem\<close> as the component declares it; the coordinates are \<open>number | null\<close>, the counts
  and the occupancy are numbers.
\<close>

record MapItem =
  support_label :: "string option"
  item_x :: "real option"
  item_y :: "real option"
  item_z :: "real option"
  item_norm :: "real option"
  lat :: "real option"
  lon :: "real option"
  n_locations :: real
  on_hand :: real
  capacity :: real
  occupancy_pct :: real

text \<open>
  A projected point. A coordinate is \<^const>\<open>None\<close> when the source would compute \<open>NaN\<close> or
  an infinity. The \<open>title\<close> of the source (a tooltip text) is left out.
\<close>

record point =
  pt_key :: string
  pt_x :: "real option"
  pt_y :: "real option"
  pt_r :: real
  pt_fill :: string

record svg =
  viewBox :: string
  svg_width :: string
  svg_height :: nat
  points :: "point list"

text \<open>\<open>typeof d.x === "number" && typeof d.y === "number"\<close>, and the same for \<open>lat\<close>, \<open>lon\<close>.\<close>

definition has_xy :: "MapItem \<Rightarrow> bool" where
  "has_xy d \<longleftrightarrow> item_x d \<noteq> None \<and> item_y d \<noteq> None"

definition has_ll :: "MapItem \<Rightarrow> bool" where
  "has_ll d \<longleftrightarrow> lat d \<noteq> None \<and> lon d \<noteq> None"

text \<open>
  The three lines every branch of \<open>svgPoints\<close> repeats: the clamped occupancy
  (\<open>d.occupancy_pct || 0\<close> is the number itself), the radius and the key.
\<close>

definition point_occ :: "MapItem \<Rightarrow> real" where
  "point_occ d = max 0 (min 1 (occupancy_pct d))"

definition point_radius :: "MapItem \<Rightarrow> real" where
  "point_radius d = 4 + min 12 (max 0 (n_locations d / 50))"

definition point_key :: "string \<Rightarrow> nat \<Rightarrow> MapItem \<Rightarrow> string" where
  "point_key tag i d = nullish_str (support_label d) ''?'' @ ''-'' @ tag @ ''-'' @ show_nat i"

text \<open>\<open>(v - lo) / (hi - lo || 1)\<close> with \<open>lo\<close>, \<open>hi\<close> the minimum and maximum of a list.\<close>

definition rescale :: "real option \<Rightarrow> real option \<Rightarrow> real \<Rightarrow> real option" where
  "rescale lo hi v =
     (case (lo, hi) of
        (Some l, Some h) \<Rightarrow> js_div (v - l) (or1 (h - l))
      | _ \<Rightarrow> None)"

text \<open>
  The body shared by the \<open>x/y\<close> and the \<open>lat/lon\<close> branch, which differ in the two fields
  read (\<open>fx\<close> horizontally, \<open>fy\<close> vertically) and in the tag of the key.
\<close>

definition scaled_points ::
  "string \<Rightarrow> (MapItem \<Rightarrow> real option) \<Rightarrow> (MapItem \<Rightarrow> real option) \<Rightarrow> MapItem list \<Rightarrow> point list" where
  "scaled_points tag fx fy its =
     (let W = 800; H = 240; pad = 16;
          xs = map (\<lambda>d. to_number (fx d)) its;
          ys = map (\<lambda>d. to_number (fy d)) its;
          minX = math_min xs; maxX = math_max xs;
          minY = math_min ys; maxY = math_max ys
      in map (\<lambda>(i, d).
            \<lparr> pt_key = point_key tag i d,
              pt_x = map_option (\<lambda>q. pad + q * (W - pad * 2)) (rescale minX maxX (to_number (fx d))),
              pt_y = map_option (\<lambda>q. pad + (1 - q) * (H - pad * 2)) (rescale minY maxY (to_number (fy d))),
              pt_r = point_radius d,
              pt_fill = colorForOccupancy (point_occ d) \<rparr>)
          (indexed its))"

text \<open>The grid of the fallback: 10 columns of cells of 72 by 40.\<close>

definition grid_rows :: "nat \<Rightarrow> nat" where
  "grid_rows n = nat \<lceil>real n / 10\<rceil>"

definition grid_Wg :: nat where
  "grid_Wg = 16 * 2 + 10 * 72"

definition grid_Hg :: "nat \<Rightarrow> nat" where
  "grid_Hg n = 16 * 2 + grid_rows n * 40"

definition grid_points :: "MapItem list \<Rightarrow> point list" where
  "grid_points all =
     (let pad = 16; cols = 10; cellW = 72; cellH = 40
      in map (\<lambda>(i, d).
            let col = i mod cols; row = i div cols
            in \<lparr> pt_key = point_key ''grid'' i d,
                 pt_x = Some (real (pad + col * cellW) + real cellW / 2),
                 pt_y = Some (real (pad + row * cellH) + real cellH / 2),
                 pt_r = point_radius d,
                 pt_fill = colorForOccupancy (point_occ d) \<rparr>)
          (indexed all))"

definition svgPoints :: "MapItem list \<Rightarrow> svg" where
  "svgPoints mapItems =
     (let itemsXY = filter has_xy mapItems;
          itemsLL = filter has_ll mapItems
      in if length itemsXY \<ge> 2 then
           \<lparr> viewBox = ''0 0 '' @ show_nat 800 @ '' '' @ show_nat 240, svg_width = ''100%'',
             svg_height = 240, points = scaled_points ''xy'' item_x item_y itemsXY \<rparr>
         else if length itemsLL \<ge> 2 then
           \<lparr> viewBox = ''0 0 '' @ show_nat 800 @ '' '' @ show_nat 240, svg_width = ''100%'',
             svg_height = 240, points = scaled_points ''ll'' lon lat itemsLL \<rparr>
         else
           \<lparr> viewBox = ''0 0 '' @ show_nat grid_Wg @ '' '' @ show_nat (grid_Hg (length mapItems)),
             svg_width = ''100%'',
             svg_height = min 280 (grid_Hg (length mapItems)),
             points = grid_points mapItems \<rparr>)"

section \<open>Storage dashboard: the five products most moved into and out of zone A\<close>

text \<open>
  An element of \<open>slotting.sample\<close>. The code guards every field it reads with \<open>||\<close>, so
  each may be missing. Of \<open>SlottingResponse\<close> only \<open>sample\<close> is read;
  \<^const>\<open>None\<close> there is a value that is not an array.
\<close>

record SlottingSample =
  referenceproduit :: "string option"
  from_zone :: "string option"
  to_zone :: "string option"
  move_qty :: "real option"
  reason :: "string option"

record SlottingResponse =
  sample :: "SlottingSample list option"

record flow =
  ref :: string
  qty :: real

definition into_A :: "SlottingSample \<Rightarrow> bool" where
  "into_A s \<longleftrightarrow> toUpperCase (or_str (to_zone s) '''') = ''A''"

definition out_of_A :: "SlottingSample \<Rightarrow> bool" where
  "out_of_A s \<longleftrightarrow> toUpperCase (or_str (from_zone s) '''') = ''A''"

definition move_key :: "SlottingSample \<Rightarrow> string" where
  "move_key s = or_str (referenceproduit s) ''?''"

text \<open>The \<open>for\<close> loop over the sample, \<open>sel\<close> being the test on the zone.\<close>

fun agg_loop :: "(SlottingSample \<Rightarrow> bool) \<Rightarrow> SlottingSample list \<Rightarrow> real js_object \<Rightarrow> real js_object" where
  "agg_loop sel [] agg = agg"
| "agg_loop sel (s # ss) agg =
     agg_loop sel ss
       (if sel s then
          (let key = move_key s
           in obj_set key (or_num (obj_get agg key) + or_num (move_qty s)) agg)
        else agg)"

text \<open>The chain \<open>Object.entries(agg).map(...).sort(...).slice(0, 5)\<close>.\<close>

definition top5_of :: "real js_object \<Rightarrow> flow list" where
  "top5_of agg =
     take 5 (js_sort (\<lambda>a b. qty b - qty a)
       (map (\<lambda>(r, q). \<lparr> ref = r, qty = q \<rparr>) (object_entries agg)))"

definition top5IN :: "SlottingResponse option \<Rightarrow> flow list" where
  "top5IN slotting =
     (case slotting of
        None \<Rightarrow> []
      | Some sl \<Rightarrow>
          (case sample sl of
             None \<Rightarrow> []
           | Some smp \<Rightarrow> top5_of (agg_loop into_A smp [])))"

definition top5OUT :: "SlottingResponse option \<Rightarrow> flow list" where
  "top5OUT slotting =
     (case slotting of
        None \<Rightarrow> []
      | Some sl \<Rightarrow>
          (case sample sl of
             None \<Rightarrow> []
           | Some smp \<Rightarrow> top5_of (agg_loop out_of_A smp [])))"

section \<open>Transport dashboard: the carrier recommendation card\<close>

text \<open>
  A candidate as \<open>CarrierSimpleCard\<close> declares it. The score is computed by the service
  behind \<open>recoSimpleRecommend\<close>; the card receives the candidates already ranked.
\<close>

record RecoItem =
  carrier :: string
  service_level :: string
  on_time_rate :: real
  cp_cost_baseline_eur :: real
  capacity_score :: real
  p50_eta_h :: "real option"
  p90_eta_h :: "real option"
  delay_rate :: "real option"
  cost_pred :: real
  eta_pred_h :: real
  risk :: real
  score :: real






section \<open>Vocabulary of the properties\<close>




text \<open>The items that \<open>svgPoints\<close> draws: those of the first strategy that applies.\<close>

definition rendered_items :: "MapItem list \<Rightarrow> MapItem list" where
  "rendered_items its =
     (if length (filter has_xy its) \<ge> 2 then filter has_xy its
      else if length (filter has_ll its) \<ge> 2 then filter has_ll its
      else its)"

text \<open>
  The linear rescale of the specification: a value \<open>v\<close> of a domain \<open>[lo, hi]\<close> is sent
  into \<open>[16, 800 - 16]\<close> horizontally and, upside down, into \<open>[16, 240 - 16]\<close>
  vertically; a domain of one value has span \<open>1\<close>.
\<close>

definition lin_x :: "real \<Rightarrow> real \<Rightarrow> real \<Rightarrow> real" where
  "lin_x lo hi v = 16 + (v - lo) / (if hi = lo then 1 else hi - lo) * (800 - 2 * 16)"

definition lin_y :: "real \<Rightarrow> real \<Rightarrow> real \<Rightarrow> real" where
  "lin_y lo hi v = 16 + (1 - (v - lo) / (if hi = lo then 1 else hi - lo)) * (240 - 2 * 16)"

text \<open>A point with two finite coordinates inside the canvas of 800 by 240 with its padding.\<close>

definition in_canvas :: "point \<Rightarrow> bool" where
  "in_canvas p \<longleftrightarrow>
     (case (pt_x p, pt_y p) of
        (Some x, Some y) \<Rightarrow> 16 \<le> x \<and> x \<le> 800 - 16 \<and> 16 \<le> y \<and> y \<le> 240 - 16
      | _ \<Rightarrow> False)"

text \<open>The numbers of one field over a list of items.\<close>

definition coords :: "(MapItem \<Rightarrow> real option) \<Rightarrow> MapItem list \<Rightarrow> real list" where
  "coords f its = map (\<lambda>d. to_number (f d)) its"

text \<open>
  The coordinates the specification gives the items of a list under the linear rescale,
  the domain of each axis being the minimum and maximum over that same list.
\<close>

definition rescaled ::
  "(MapItem \<Rightarrow> real option) \<Rightarrow> (MapItem \<Rightarrow> real option) \<Rightarrow> MapItem list
     \<Rightarrow> (real option \<times> real option) list" where
  "rescaled fx fy its =
     (let X = coords fx its; Y = coords fy its
      in map (\<lambda>d. (Some (lin_x (Min (set X)) (Max (set X)) (to_number (fx d))),
                    Some (lin_y (Min (set Y)) (Max (set Y)) (to_number (fy d))))) its)"

text \<open>The centres of the first \<open>n\<close> cells of the grid, row by row, ten to a row.\<close>

definition grid_xy :: "nat \<Rightarrow> (real option \<times> real option) list" where
  "grid_xy n =
     map (\<lambda>i. (Some (16 + real (i mod 10) * 72 + 36), Some (16 + real (i div 10) * 40 + 20)))
       [0..<n]"

text \<open>What identifies the item behind a point: its key, its radius and its colour.\<close>

definition drawn :: "string \<Rightarrow> MapItem list \<Rightarrow> (string \<times> real \<times> string) list" where
  "drawn tag its =
     map (\<lambda>(i, d). (point_key tag i d, point_radius d, colorForOccupancy (point_occ d)))
       (indexed its)"

text \<open>A storage point with the fields the projection reads.\<close>

definition mk_item ::
  "string option \<Rightarrow> real option \<Rightarrow> real option \<Rightarrow> real option \<Rightarrow> real option \<Rightarrow> real \<Rightarrow> real
     \<Rightarrow> MapItem" where
  "mk_item l vx vy vlat vlon n occ =
     \<lparr> support_label = l, item_x = vx, item_y = vy, item_z = None, item_norm = None,
       lat = vlat, lon = vlon, n_locations = n, on_hand = 0, capacity = 0, occupancy_pct = occ \<rparr>"






section \<open>Evaluation on concrete inputs\<close>

lemmas eval_defs = top5IN_def top5OUT_def top5_of_def into_A_def out_of_A_def toUpperCase_def
  upper_char_def or_str_def move_key_def obj_get_def or_num_def object_entries_def
  is_array_index_def parse_nat_def show_nat.simps js_sort_def digit_char_def

lemma show_int_channels:
  "show_int 16 = ''16''" "show_int 185 = ''185''" "show_int 129 = ''129''"
  "show_int 239 = ''239''" "show_int 68 = ''68''"
  "show_int 128 = ''128''" "show_int 127 = ''127''" "show_int 99 = ''99''"
  by (simp_all add: show_int_def show_nat.simps digit_char_def)

section \<open>The colour of a point\<close>

lemma occupancy_rgb_clamp: "occupancy_rgb p = occupancy_rgb (max 0 (min 1 p))"
  by (simp add: occupancy_rgb_def)

lemma rgb_low: "occupancy_rgb (min p 0) = (16, 185, 129)"
  by (simp add: occupancy_rgb_def math_round_def min_def max_def)

lemma rgb_high: "occupancy_rgb (max p 1) = (239, 68, 68)"
  by (simp add: occupancy_rgb_def math_round_def min_def max_def)

lemma rgb_half: "occupancy_rgb (1 / 2) = (128, 127, 99)"
  by (simp add: occupancy_rgb_def math_round_def)

text \<open>
  C6, as stated, fails at the ratio \<open>0.5\<close>: the channels are integers, and the midpoints
  \<open>127.5\<close>, \<open>126.5\<close> and \<open>98.5\<close> of the two colours are not.
\<close>

theorem colorForOccupancy_half_counterexample:
  "\<not> (case occupancy_rgb (1 / 2) of (r, g, b) \<Rightarrow>
        real_of_int r = (16 + 239) / 2 \<and> real_of_int g = (185 + 68) / 2
        \<and> real_of_int b = (129 + 68) / 2)"
  by (simp add: occupancy_rgb_def math_round_def)

text \<open>
  C6, amended: \<open>colorForOccupancy(0)\<close> is \<open>rgb(16,185,129)\<close> and \<open>colorForOccupancy(1)\<close> is
  \<open>rgb(239,68,68)\<close>; at \<open>0.5\<close> every channel is the midpoint of the two colours rounded
  to the nearest integer, a half upwards, which gives \<open>rgb(128,127,99)\<close>; the ratio is
  clamped to \<open>[0,1]\<close> first, so every ratio at most \<open>0\<close> gives the low colour and every
  ratio at least \<open>1\<close> the high one.
\<close>

theorem colorForOccupancy_endpoints:
  "colorForOccupancy 0 = ''rgb(16,185,129)''
   \<and> colorForOccupancy 1 = ''rgb(239,68,68)''
   \<and> occupancy_rgb (1 / 2) =
       (math_round ((16 + 239) / 2), math_round ((185 + 68) / 2), math_round ((129 + 68) / 2))
   \<and> colorForOccupancy (1 / 2) = ''rgb(128,127,99)''
   \<and> colorForOccupancy p = colorForOccupancy (max 0 (min 1 p))
   \<and> colorForOccupancy (min p 0) = ''rgb(16,185,129)''
   \<and> colorForOccupancy (max p 1) = ''rgb(239,68,68)''"
proof -
  note s = show_int_channels
  have c: "colorForOccupancy p = colorForOccupancy (max 0 (min 1 p))"
    unfolding colorForOccupancy_def using occupancy_rgb_clamp [of p] by simp
  have l: "colorForOccupancy (min p 0) = ''rgb(16,185,129)''"
    by (simp add: colorForOccupancy_def rgb_low s)
  have u: "colorForOccupancy (max p 1) = ''rgb(239,68,68)''"
    by (simp add: colorForOccupancy_def rgb_high s)
  have z: "colorForOccupancy 0 = ''rgb(16,185,129)''"
    using rgb_low [of 0] by (simp add: colorForOccupancy_def s)
  have o: "colorForOccupancy 1 = ''rgb(239,68,68)''"
    using rgb_high [of 1] by (simp add: colorForOccupancy_def s)
  have m: "colorForOccupancy (1 / 2) = ''rgb(128,127,99)''"
    by (simp add: colorForOccupancy_def rgb_half s)
  have h: "occupancy_rgb (1 / 2) =
       (math_round ((16 + 239) / 2), math_round ((185 + 68) / 2), math_round ((129 + 68) / 2))"
    by (simp add: rgb_half math_round_def)
  from z o h m c l u show ?thesis by blast
qed

section \<open>The radius of a point\<close>

lemma map_indexed: "map (\<lambda>(i, d). g d) (indexed xs) = map g xs"
proof -
  have "map (\<lambda>(i, d). g d) (indexed xs) = map g (map snd (indexed xs))"
    by (simp add: case_prod_unfold comp_def)
  also have "map snd (indexed xs) = xs"
    by (simp add: indexed_def)
  finally show ?thesis .
qed

lemma length_indexed [simp]: "length (indexed xs) = length xs"
  by (simp add: indexed_def)

lemma nth_indexed: "i < length xs \<Longrightarrow> indexed xs ! i = (i, xs ! i)"
  by (simp add: indexed_def)

lemma pt_r_scaled: "map pt_r (scaled_points tag fx fy its) = map point_radius its"
  using map_indexed [of point_radius its]
  by (simp add: scaled_points_def Let_def comp_def case_prod_unfold)

lemma pt_r_grid: "map pt_r (grid_points its) = map point_radius its"
  using map_indexed [of point_radius its]
  by (simp add: grid_points_def Let_def comp_def case_prod_unfold)

lemma radius_svgPoints:
  "map pt_r (points (svgPoints its)) = map point_radius (rendered_items its)"
  by (simp add: svgPoints_def rendered_items_def Let_def pt_r_scaled pt_r_grid)

text \<open>
  C7: the radii of the points drawn are those of the items drawn, in order, each
  \<open>4 + min(12, max(0, n_locations / 50))\<close>, which is \<open>4 + min(12, n_locations / 50)\<close> for a
  count that is not negative; the radius does not decrease when the count grows, and lies
  between \<open>4\<close> and \<open>16\<close>.
\<close>

theorem point_radius_clamped:
  "map pt_r (points (svgPoints its)) = map point_radius (rendered_items its)
   \<and> point_radius d = 4 + min 12 (max 0 (n_locations d / 50))
   \<and> (0 \<le> n_locations d \<longrightarrow> point_radius d = 4 + min 12 (n_locations d / 50))
   \<and> (n_locations d \<le> n_locations d' \<longrightarrow> point_radius d \<le> point_radius d')
   \<and> 4 \<le> point_radius d \<and> point_radius d \<le> 16"
  using radius_svgPoints [of its] by (auto simp add: point_radius_def min_def max_def)

theorem point_radius_clamped_witness:
  "map pt_r (points (svgPoints
      [\<lparr> support_label = None, item_x = Some 1, item_y = Some 2, item_z = None, item_norm = None,
         lat = None, lon = None, n_locations = 100, on_hand = 0, capacity = 0,
         occupancy_pct = 1 / 2 \<rparr>,
       \<lparr> support_label = Some ''S1'', item_x = Some 1, item_y = Some 5, item_z = None,
         item_norm = None, lat = None, lon = None, n_locations = 1000, on_hand = 0, capacity = 0,
         occupancy_pct = 2 \<rparr>])) = [6, 16]
   \<and> (0::real) \<le> 100 \<and> (100::real) \<le> 1000
   \<and> point_radius \<lparr> support_label = None, item_x = Some 1, item_y = Some 2, item_z = None,
         item_norm = None, lat = None, lon = None, n_locations = 100, on_hand = 0, capacity = 0,
         occupancy_pct = 1 / 2 \<rparr>
       \<le> point_radius \<lparr> support_label = Some ''S1'', item_x = Some 1, item_y = Some 5,
         item_z = None, item_norm = None, lat = None, lon = None, n_locations = 1000, on_hand = 0,
         capacity = 0, occupancy_pct = 2 \<rparr>"
  using point_radius_clamped
    [of "[\<lparr> support_label = None, item_x = Some 1, item_y = Some 2, item_z = None,
            item_norm = None, lat = None, lon = None, n_locations = 100, on_hand = 0,
            capacity = 0, occupancy_pct = 1 / 2 \<rparr>,
          \<lparr> support_label = Some ''S1'', item_x = Some 1, item_y = Some 5, item_z = None,
            item_norm = None, lat = None, lon = None, n_locations = 1000, on_hand = 0,
            capacity = 0, occupancy_pct = 2 \<rparr>]"
        "\<lparr> support_label = None, item_x = Some 1, item_y = Some 2, item_z = None,
            item_norm = None, lat = None, lon = None, n_locations = 100, on_hand = 0,
            capacity = 0, occupancy_pct = 1 / 2 \<rparr>"
        "\<lparr> support_label = Some ''S1'', item_x = Some 1, item_y = Some 5, item_z = None,
            item_norm = None, lat = None, lon = None, n_locations = 1000, on_hand = 0,
            capacity = 0, occupancy_pct = 2 \<rparr>"]
  by (simp add: rendered_items_def has_xy_def point_radius_def)

section \<open>The projection of the storage map\<close>

lemma map_indexed_snd [simp]: "map (\<lambda>p. g (snd p)) (indexed xs) = map g xs"
  using map_indexed [of g xs] by (simp add: case_prod_unfold)

lemma map_indexed_gen:
  assumes "\<And>i. i < length xs \<Longrightarrow> h (F i (xs ! i)) = G (xs ! i)"
  shows "map h (map (\<lambda>(i, d). F i d) (indexed xs)) = map G xs"
  by (rule nth_equalityI) (simp_all add: nth_indexed assms)

lemma math_min_Min: "vs \<noteq> [] \<Longrightarrow> math_min vs = Some (Min (set vs))"
  using Min.set_eq_fold [of "hd vs" "tl vs"] by (cases vs) simp_all

lemma math_max_Max: "vs \<noteq> [] \<Longrightarrow> math_max vs = Some (Max (set vs))"
  using Max.set_eq_fold [of "hd vs" "tl vs"] by (cases vs) simp_all


lemma rescale_Some:
  "vs \<noteq> [] \<Longrightarrow> rescale (math_min vs) (math_max vs) v
     = Some ((v - Min (set vs)) / (if Max (set vs) = Min (set vs) then 1 else Max (set vs) - Min (set vs)))"
  by (simp add: math_min_Min math_max_Max rescale_def js_div_def or1_def)

lemma pt_x_scaled:
  assumes "its \<noteq> []"
  shows "map pt_x (scaled_points tag fx fy its)
    = map (\<lambda>v. Some (lin_x (Min (set (coords fx its))) (Max (set (coords fx its))) v)) (coords fx its)"
proof -
  have ne: "map (\<lambda>d. to_number (fx d)) its \<noteq> []" using assms by simp
  have "map pt_x (scaled_points tag fx fy its)
      = map (\<lambda>d. Some (lin_x (Min (set (coords fx its))) (Max (set (coords fx its)))
          (to_number (fx d)))) its"
    unfolding scaled_points_def Let_def
    by (rule map_indexed_gen) (simp add: rescale_Some [OF ne] lin_x_def coords_def)
  then show ?thesis by (simp add: coords_def comp_def)
qed

lemma pt_y_scaled:
  assumes "its \<noteq> []"
  shows "map pt_y (scaled_points tag fx fy its)
    = map (\<lambda>v. Some (lin_y (Min (set (coords fy its))) (Max (set (coords fy its))) v)) (coords fy its)"
proof -
  have ne: "map (\<lambda>d. to_number (fy d)) its \<noteq> []" using assms by simp
  have "map pt_y (scaled_points tag fx fy its)
      = map (\<lambda>d. Some (lin_y (Min (set (coords fy its))) (Max (set (coords fy its)))
          (to_number (fy d)))) its"
    unfolding scaled_points_def Let_def
    by (rule map_indexed_gen) (simp add: rescale_Some [OF ne] lin_y_def coords_def)
  then show ?thesis by (simp add: coords_def comp_def)
qed






lemma lin_degenerate: "lin_x lo lo lo = 16" "lin_y lo lo lo = 224"
  by (simp_all add: lin_x_def lin_y_def)


lemma pt_x_grid:
  "map pt_x (grid_points its) = map (\<lambda>i. Some (16 + real (i mod 10) * 72 + 36)) [0..<length its]"
proof -
  have "map pt_x (grid_points its) = map (\<lambda>p. Some (16 + real (fst p mod 10) * 72 + 36)) (indexed its)"
    by (simp add: grid_points_def Let_def comp_def case_prod_unfold)
  also have "\<dots> = map (\<lambda>i. Some (16 + real (i mod 10) * 72 + 36)) (map fst (indexed its))"
    by (simp add: comp_def)
  also have "map fst (indexed its) = [0..<length its]"
    by (simp add: indexed_def)
  finally show ?thesis .
qed

lemma pt_y_grid:
  "map pt_y (grid_points its) = map (\<lambda>i. Some (16 + real (i div 10) * 40 + 20)) [0..<length its]"
proof -
  have "map pt_y (grid_points its) = map (\<lambda>p. Some (16 + real (fst p div 10) * 40 + 20)) (indexed its)"
    by (simp add: grid_points_def Let_def comp_def case_prod_unfold)
  also have "\<dots> = map (\<lambda>i. Some (16 + real (i div 10) * 40 + 20)) (map fst (indexed its))"
    by (simp add: comp_def)
  also have "map fst (indexed its) = [0..<length its]"
    by (simp add: indexed_def)
  finally show ?thesis .
qed





lemma drawn_scaled:
  "map (\<lambda>p. (pt_key p, pt_r p, pt_fill p)) (scaled_points tag fx fy its) = drawn tag its"
  by (rule nth_equalityI) (simp_all add: scaled_points_def drawn_def Let_def nth_indexed)

lemma drawn_grid:
  "map (\<lambda>p. (pt_key p, pt_r p, pt_fill p)) (grid_points its) = drawn ''grid'' its"
  by (rule nth_equalityI) (simp_all add: grid_points_def drawn_def Let_def nth_indexed)

lemma length_scaled [simp]: "length (scaled_points tag fx fy its) = length its"
  by (simp add: scaled_points_def Let_def)

lemma length_grid [simp]: "length (grid_points its) = length its"
  by (simp add: grid_points_def Let_def)




lemma show_canvas: "show_nat 800 = ''800''" "show_nat 240 = ''240''" "show_nat grid_Wg = ''752''"
  by (simp_all add: show_nat.simps digit_char_def grid_Wg_def)


lemma svgPoints_xy:
  assumes "2 \<le> length (filter has_xy its)"
  shows "points (svgPoints its) = scaled_points ''xy'' item_x item_y (filter has_xy its)"
    and "viewBox (svgPoints its) = ''0 0 800 240''"
  using assms by (simp_all add: svgPoints_def Let_def show_canvas)

lemma svgPoints_ll:
  assumes "length (filter has_xy its) < 2" "2 \<le> length (filter has_ll its)"
  shows "points (svgPoints its) = scaled_points ''ll'' lon lat (filter has_ll its)"
    and "viewBox (svgPoints its) = ''0 0 800 240''"
  using assms by (simp_all add: svgPoints_def Let_def show_canvas)

lemma svgPoints_grid:
  assumes "length (filter has_xy its) < 2" "length (filter has_ll its) < 2"
  shows "points (svgPoints its) = grid_points its"
    and "viewBox (svgPoints its) = ''0 0 752 '' @ show_nat (grid_Hg (length its))"
    and "svg_height (svgPoints its) = min 280 (grid_Hg (length its))"
  using assms by (simp_all add: svgPoints_def Let_def show_canvas)




lemmas item_defs = mk_item_def has_xy_def has_ll_def rescaled_def coords_def to_number_def
  lin_x_def lin_y_def grid_xy_def in_canvas_def















text \<open>
  C10: which items are drawn. When the \<open>x/y\<close> strategy applies the points are, in the
  order of the input, the items that carry both \<open>x\<close> and \<open>y\<close>, and the items that lack one
  are left out; the same holds for the \<open>lat/lon\<close> strategy; the grid draws every item.
\<close>

theorem svgPoints_rendered:
  "(2 \<le> length (filter has_xy its) \<longrightarrow>
      map (\<lambda>p. (pt_key p, pt_r p, pt_fill p)) (points (svgPoints its))
        = drawn ''xy'' (filter has_xy its)
      \<and> length (points (svgPoints its)) = length (filter has_xy its)
      \<and> length (points (svgPoints its)) + length (filter (\<lambda>d. \<not> has_xy d) its) = length its)
   \<and> (length (filter has_xy its) < 2 \<and> 2 \<le> length (filter has_ll its) \<longrightarrow>
      map (\<lambda>p. (pt_key p, pt_r p, pt_fill p)) (points (svgPoints its))
        = drawn ''ll'' (filter has_ll its)
      \<and> length (points (svgPoints its)) = length (filter has_ll its)
      \<and> length (points (svgPoints its)) + length (filter (\<lambda>d. \<not> has_ll d) its) = length its)
   \<and> (length (filter has_xy its) < 2 \<and> length (filter has_ll its) < 2 \<longrightarrow>
      map (\<lambda>p. (pt_key p, pt_r p, pt_fill p)) (points (svgPoints its)) = drawn ''grid'' its
      \<and> length (points (svgPoints its)) = length its)"
proof (intro conjI impI)
  assume a: "2 \<le> length (filter has_xy its)"
  show "map (\<lambda>p. (pt_key p, pt_r p, pt_fill p)) (points (svgPoints its))
      = drawn ''xy'' (filter has_xy its)"
    by (simp only: svgPoints_xy [OF a] drawn_scaled)
  show l: "length (points (svgPoints its)) = length (filter has_xy its)"
    by (simp only: svgPoints_xy [OF a] length_scaled)
  show "length (points (svgPoints its)) + length (filter (\<lambda>d. \<not> has_xy d) its) = length its"
    using sum_length_filter_compl [of has_xy its] by (simp only: l)
next
  assume "length (filter has_xy its) < 2 \<and> 2 \<le> length (filter has_ll its)"
  then have a: "length (filter has_xy its) < 2" and b: "2 \<le> length (filter has_ll its)"
    by simp_all
  show "map (\<lambda>p. (pt_key p, pt_r p, pt_fill p)) (points (svgPoints its))
      = drawn ''ll'' (filter has_ll its)"
    by (simp only: svgPoints_ll [OF a b] drawn_scaled)
  show l: "length (points (svgPoints its)) = length (filter has_ll its)"
    by (simp only: svgPoints_ll [OF a b] length_scaled)
  show "length (points (svgPoints its)) + length (filter (\<lambda>d. \<not> has_ll d) its) = length its"
    using sum_length_filter_compl [of has_ll its] by (simp only: l)
next
  assume "length (filter has_xy its) < 2 \<and> length (filter has_ll its) < 2"
  then have a: "length (filter has_xy its) < 2" and b: "length (filter has_ll its) < 2"
    by simp_all
  show "map (\<lambda>p. (pt_key p, pt_r p, pt_fill p)) (points (svgPoints its)) = drawn ''grid'' its"
    by (simp only: svgPoints_grid [OF a b] drawn_grid)
  show "length (points (svgPoints its)) = length its"
    by (simp only: svgPoints_grid [OF a b] length_grid)
qed

lemmas drawn_defs = drawn_def indexed_def point_key_def nullish_str_def point_radius_def
  point_occ_def colorForOccupancy_def occupancy_rgb_def math_round_def show_int_def
  show_nat.simps digit_char_def

theorem svgPoints_rendered_witness:
  "(2 \<le> length (filter has_xy
        [mk_item (Some ''R1'') (Some 1) (Some 2) None None 100 0,
         mk_item (Some ''R2'') None (Some 9) (Some 4) (Some 5) 100 0,
         mk_item None (Some 3) (Some 6) None None 100 1])
    \<and> map (\<lambda>p. (pt_key p, pt_r p, pt_fill p)) (points (svgPoints
        [mk_item (Some ''R1'') (Some 1) (Some 2) None None 100 0,
         mk_item (Some ''R2'') None (Some 9) (Some 4) (Some 5) 100 0,
         mk_item None (Some 3) (Some 6) None None 100 1]))
       = [(''R1-xy-0'', 6, ''rgb(16,185,129)''), (''?-xy-1'', 6, ''rgb(239,68,68)'')])
   \<and> (length (filter has_xy
        [mk_item (Some ''R1'') (Some 1) None (Some 40) (Some 2) 100 0,
         mk_item (Some ''R2'') None None None (Some 4) 100 0,
         mk_item (Some ''R3'') None None (Some 45) (Some 3) 100 0]) < 2
    \<and> 2 \<le> length (filter has_ll
        [mk_item (Some ''R1'') (Some 1) None (Some 40) (Some 2) 100 0,
         mk_item (Some ''R2'') None None None (Some 4) 100 0,
         mk_item (Some ''R3'') None None (Some 45) (Some 3) 100 0])
    \<and> map (\<lambda>p. (pt_key p, pt_r p, pt_fill p)) (points (svgPoints
        [mk_item (Some ''R1'') (Some 1) None (Some 40) (Some 2) 100 0,
         mk_item (Some ''R2'') None None None (Some 4) 100 0,
         mk_item (Some ''R3'') None None (Some 45) (Some 3) 100 0]))
       = [(''R1-ll-0'', 6, ''rgb(16,185,129)''), (''R3-ll-1'', 6, ''rgb(16,185,129)'')])
   \<and> (length (filter has_xy
        [mk_item (Some ''R1'') (Some 1) (Some 2) (Some 40) None 100 0,
         mk_item (Some ''R2'') None None None None 100 0]) < 2
    \<and> length (filter has_ll
        [mk_item (Some ''R1'') (Some 1) (Some 2) (Some 40) None 100 0,
         mk_item (Some ''R2'') None None None None 100 0]) < 2
    \<and> map (\<lambda>p. (pt_key p, pt_r p, pt_fill p)) (points (svgPoints
        [mk_item (Some ''R1'') (Some 1) (Some 2) (Some 40) None 100 0,
         mk_item (Some ''R2'') None None None None 100 0]))
       = [(''R1-grid-0'', 6, ''rgb(16,185,129)''), (''R2-grid-1'', 6, ''rgb(16,185,129)'')])"
proof -
  let ?I = "[mk_item (Some ''R1'') (Some 1) (Some 2) None None 100 0,
             mk_item (Some ''R2'') None (Some 9) (Some 4) (Some 5) 100 0,
             mk_item None (Some 3) (Some 6) None None 100 1]"
  let ?J = "[mk_item (Some ''R1'') (Some 1) None (Some 40) (Some 2) 100 0,
             mk_item (Some ''R2'') None None None (Some 4) 100 0,
             mk_item (Some ''R3'') None None (Some 45) (Some 3) 100 0]"
  let ?K = "[mk_item (Some ''R1'') (Some 1) (Some 2) (Some 40) None 100 0,
             mk_item (Some ''R2'') None None None None 100 0]"
  have i1: "2 \<le> length (filter has_xy ?I)"
    by (simp add: item_defs)
  have i2: "drawn ''xy'' (filter has_xy ?I)
      = [(''R1-xy-0'', 6, ''rgb(16,185,129)''), (''?-xy-1'', 6, ''rgb(239,68,68)'')]"
    by (simp add: item_defs drawn_defs)
  have j1: "length (filter has_xy ?J) < 2" and j2: "2 \<le> length (filter has_ll ?J)"
    by (simp_all add: item_defs)
  have j3: "drawn ''ll'' (filter has_ll ?J)
      = [(''R1-ll-0'', 6, ''rgb(16,185,129)''), (''R3-ll-1'', 6, ''rgb(16,185,129)'')]"
    by (simp add: item_defs drawn_defs)
  have k1: "length (filter has_xy ?K) < 2" and k2: "length (filter has_ll ?K) < 2"
    by (simp_all add: item_defs)
  have k3: "drawn ''grid'' ?K
      = [(''R1-grid-0'', 6, ''rgb(16,185,129)''), (''R2-grid-1'', 6, ''rgb(16,185,129)'')]"
    by (simp add: item_defs drawn_defs)
  have ci: "map (\<lambda>p. (pt_key p, pt_r p, pt_fill p)) (points (svgPoints ?I))
      = drawn ''xy'' (filter has_xy ?I)"
    using svgPoints_rendered [of ?I] i1 by blast
  have cj: "map (\<lambda>p. (pt_key p, pt_r p, pt_fill p)) (points (svgPoints ?J))
      = drawn ''ll'' (filter has_ll ?J)"
    using svgPoints_rendered [of ?J] j1 j2 by blast
  have ck: "map (\<lambda>p. (pt_key p, pt_r p, pt_fill p)) (points (svgPoints ?K)) = drawn ''grid'' ?K"
    using svgPoints_rendered [of ?K] k1 k2 by blast
  from i1 j1 j2 k1 k2 ci [unfolded i2] cj [unfolded j3] ck [unfolded k3] show ?thesis
    by blast
qed

section \<open>The five products most moved: scenario\<close>

text \<open>
  C3: on the three moves of the scenario, all into zone \<open>A\<close>, the products \<open>A\<close> and \<open>B\<close>
  both total \<open>15\<close> and \<open>A\<close>, seen first, comes first.
\<close>

theorem top5IN_scenario:
  "top5IN (Some \<lparr> sample = Some
      [\<lparr> referenceproduit = Some ''A'', from_zone = Some ''B'', to_zone = Some ''A'',
         move_qty = Some 10, reason = None \<rparr>,
       \<lparr> referenceproduit = Some ''B'', from_zone = Some ''C'', to_zone = Some ''A'',
         move_qty = Some 15, reason = None \<rparr>,
       \<lparr> referenceproduit = Some ''A'', from_zone = Some ''D'', to_zone = Some ''A'',
         move_qty = Some 5, reason = None \<rparr>] \<rparr>)
   = [\<lparr> ref = ''A'', qty = 15 \<rparr>, \<lparr> ref = ''B'', qty = 15 \<rparr>]"
  by (simp add: eval_defs)

section \<open>The carrier recommendation card\<close>



section \<open>The five products most moved\<close>

subsection \<open>The first occurrence of a key\<close>





subsection \<open>The keys of the dictionary\<close>










subsection \<open>The values of the dictionary\<close>





subsection \<open>The order of the entries of the dictionary\<close>


lemma set_object_entries [simp]: "set (object_entries ob) = set ob"
  by (auto simp add: object_entries_def)

lemma length_object_entries [simp]: "length (object_entries ob) = length ob"
  using sum_length_filter_compl [of "\<lambda>p. is_array_index (fst p)" ob]
  by (simp add: object_entries_def)



subsection \<open>The stable sort\<close>

lemma set_js_insert [simp]: "set (js_insert cmp a xs) = insert a (set xs)"
  by (induction xs) auto

lemma length_js_insert [simp]: "length (js_insert cmp a xs) = Suc (length xs)"
  by (induction xs) auto

lemma js_sort_Cons: "js_sort cmp (x # xs) = js_insert cmp x (js_sort cmp xs)"
  by (simp add: js_sort_def)

lemma js_sort_Nil [simp]: "js_sort cmp [] = []"
  by (simp add: js_sort_def)

lemma set_js_sort [simp]: "set (js_sort cmp xs) = set xs"
  by (induction xs) (simp_all add: js_sort_Cons)

lemma length_js_sort [simp]: "length (js_sort cmp xs) = length xs"
  by (induction xs) (simp_all add: js_sort_Cons)






subsection \<open>The five entries\<close>




































end
